theory Spec2Isabelle
  imports Complex_Main "HOL-Library.Log_Nat" "HOL-Library.Word"
begin

section \<open>JavaScript values\<close>

text \<open>
  The screens compute with JavaScript numbers, which are IEEE 754 binary64 values.  A
  finite double is modelled by the real it denotes; the other values are the two
  infinities and NaN.  The sign of zero is not modelled.
\<close>

datatype jsnum = Num real | PosInf | NegInf | NaN

subsection \<open>Rounding to the nearest double\<close>

text \<open>
  The result of an arithmetic operation is the exact result rounded to the nearest
  double, ties to the even significand.  A finite double is \<open>m * 2 ^ e\<close> with an integer
  \<open>m\<close> below \<open>2 ^ 53\<close> in absolute value and \<open>e\<close> from \<open>- 1074\<close> to \<open>971\<close>.

  \<open>floor_log2 a\<close> is the integer \<open>n\<close> with \<open>2 ^ n \<le> a < 2 ^ (n + 1)\<close>, for a positive
  \<open>a\<close>: one less than the number of bits of the integer part when \<open>1 \<le> a\<close>, and minus
  the least \<open>n\<close> with \<open>1 / a \<le> 2 ^ n\<close> otherwise.
\<close>

definition floor_log2 :: "real \<Rightarrow> int" where
  "floor_log2 a = (if 1 \<le> a then bitlen \<lfloor>a\<rfloor> - 1 else - bitlen (\<lceil>1 / a\<rceil> - 1))"

definition pow2 :: "int \<Rightarrow> real" where
  "pow2 e = (if 0 \<le> e then 2 ^ nat e else 1 / 2 ^ nat (- e))"

text \<open>
  Rounding to the nearest integer, a tie to the even one: \<open>n\<close> is the integer part and
  \<open>d\<close> the fraction that is left.
\<close>

definition nearest_even :: "int \<Rightarrow> real \<Rightarrow> int" where
  "nearest_even n d =
     (if d < 1 / 2 then n else if 1 / 2 < d then n + 1 else if even n then n else n + 1)"

definition round_half_even :: "real \<Rightarrow> int" where
  "round_half_even x = nearest_even \<lfloor>x\<rfloor> (x - of_int \<lfloor>x\<rfloor>)"

text \<open>
  The magnitude \<open>y\<close> of a rounded result with the sign of \<open>x\<close>: a magnitude of
  \<open>2 ^ 1024\<close> or more is beyond the largest double and becomes an infinity.
\<close>

definition signed_result :: "real \<Rightarrow> real \<Rightarrow> jsnum" where
  "signed_result x y =
     (if 2 ^ 1024 \<le> y then (if 0 < x then PosInf else NegInf)
      else Num (if 0 < x then y else - y))"

text \<open>Rounding \<open>x\<close> to a multiple of \<open>2 ^ e\<close>.\<close>

definition round_at :: "int \<Rightarrow> real \<Rightarrow> jsnum" where
  "round_at e x = signed_result x (of_int (round_half_even (\<bar>x\<bar> / pow2 e)) * pow2 e)"

text \<open>
  The exponent of the last place is that of a 53-bit significand, and not below
  \<open>- 1074\<close> (the subnormal numbers).
\<close>

definition round64 :: "real \<Rightarrow> jsnum" where
  "round64 x =
     (if x = 0 then Num 0 else round_at (max (floor_log2 \<bar>x\<bar> - 52) (- 1074)) x)"

subsection \<open>Values and operators\<close>

text \<open>
  A numeric field of an object fetched from the backend (all of them are typed
  \<^verbatim>\<open>any\<close> in the screens): the key is missing, the value is \<^verbatim>\<open>null\<close>,
  or it is a number.  JSON has no NaN and no infinity, so a fetched number is a finite
  double.  Strings, booleans and nested objects in a numeric field are outside this
  model.
\<close>

datatype json = JUndefined | JNull | JNumber real

text \<open>\<^verbatim>\<open>ToNumber\<close> and \<^verbatim>\<open>ToBoolean\<close> of ECMAScript, on these values.\<close>

fun ToNumber :: "json \<Rightarrow> jsnum" where
  "ToNumber JUndefined = NaN"
| "ToNumber JNull = Num 0"
| "ToNumber (JNumber r) = Num r"

fun ToBoolean :: "json \<Rightarrow> bool" where
  "ToBoolean JUndefined = False"
| "ToBoolean JNull = False"
| "ToBoolean (JNumber r) = (r \<noteq> 0)"

text \<open>
  \<^verbatim>\<open>x || d\<close> with a numeric default: the left operand when it is truthy, and a
  truthy value of type \<^typ>\<open>json\<close> is a nonzero number.
\<close>

fun js_or :: "json \<Rightarrow> real \<Rightarrow> jsnum" where
  "js_or (JNumber r) d = (if r \<noteq> 0 then Num r else Num d)"
| "js_or JUndefined d = Num d"
| "js_or JNull d = Num d"

text \<open>The sign of a number, and the infinity (or NaN) that a sign selects.\<close>

fun js_sign :: "jsnum \<Rightarrow> real" where
  "js_sign (Num a) = sgn a"
| "js_sign PosInf = 1"
| "js_sign NegInf = - 1"
| "js_sign NaN = 0"

definition inf_of_sign :: "real \<Rightarrow> jsnum" where
  "inf_of_sign s = (if s = 0 then NaN else if 0 < s then PosInf else NegInf)"

text \<open>
  The operators \<^verbatim>\<open>*\<close>, \<^verbatim>\<open>/\<close>, \<^verbatim>\<open>-\<close> and \<^verbatim>\<open><\<close> on numbers.  The result on two
  finite numbers is the exact result rounded by \<open>round64\<close>.  A zero divisor is taken
  as positive zero.
\<close>

fun js_mul :: "jsnum \<Rightarrow> jsnum \<Rightarrow> jsnum" where
  "js_mul NaN y = NaN"
| "js_mul x NaN = NaN"
| "js_mul (Num a) (Num b) = round64 (a * b)"
| "js_mul x y = inf_of_sign (js_sign x * js_sign y)"

fun js_div :: "jsnum \<Rightarrow> jsnum \<Rightarrow> jsnum" where
  "js_div NaN y = NaN"
| "js_div x NaN = NaN"
| "js_div (Num a) (Num b) = (if b = 0 then inf_of_sign (sgn a) else round64 (a / b))"
| "js_div (Num a) y = Num 0"
| "js_div x (Num b) = inf_of_sign (js_sign x * (if b < 0 then - 1 else 1))"
| "js_div x y = NaN"

fun js_sub :: "jsnum \<Rightarrow> jsnum \<Rightarrow> jsnum" where
  "js_sub NaN y = NaN"
| "js_sub x NaN = NaN"
| "js_sub (Num a) (Num b) = round64 (a - b)"
| "js_sub PosInf PosInf = NaN"
| "js_sub NegInf NegInf = NaN"
| "js_sub PosInf y = PosInf"
| "js_sub NegInf y = NegInf"
| "js_sub x PosInf = NegInf"
| "js_sub x NegInf = PosInf"

fun js_neg :: "jsnum \<Rightarrow> jsnum" where
  "js_neg (Num a) = Num (- a)"
| "js_neg PosInf = NegInf"
| "js_neg NegInf = PosInf"
| "js_neg NaN = NaN"

fun js_lt :: "jsnum \<Rightarrow> jsnum \<Rightarrow> bool" where
  "js_lt NaN y = False"
| "js_lt x NaN = False"
| "js_lt (Num a) (Num b) = (a < b)"
| "js_lt x PosInf = (x \<noteq> PosInf)"
| "js_lt NegInf y = (y \<noteq> NegInf)"
| "js_lt x y = False"

text \<open>\<^verbatim>\<open>Math.min\<close> and \<^verbatim>\<open>Math.max\<close> of two numbers.\<close>

fun Math_min :: "jsnum \<Rightarrow> jsnum \<Rightarrow> jsnum" where
  "Math_min NaN y = NaN"
| "Math_min x NaN = NaN"
| "Math_min x y = (if js_lt y x then y else x)"

fun Math_max :: "jsnum \<Rightarrow> jsnum \<Rightarrow> jsnum" where
  "Math_max NaN y = NaN"
| "Math_max x NaN = NaN"
| "Math_max x y = (if js_lt x y then y else x)"

subsection \<open>\<^verbatim>\<open>parseFloat\<close>\<close>

text \<open>
  A JavaScript string is a sequence of 16-bit code units.  \<open>ascii\<close> gives the code
  units of a string of ASCII characters.
\<close>

type_synonym code_unit = "16 word"

definition ascii :: "string \<Rightarrow> code_unit list" where
  "ascii s = map (\<lambda>c. of_nat (of_char c)) s"

text \<open>
  \<^verbatim>\<open>parseFloat\<close> skips leading white space and reads the longest prefix of the rest
  that is a \<^verbatim>\<open>StrDecimalLiteral\<close>: an optional sign, then \<^verbatim>\<open>Infinity\<close> or decimal
  digits with an optional fraction and an optional exponent.  The result is the value
  of that literal rounded to the nearest double; with no such prefix it is NaN.

  White space is \<^verbatim>\<open>WhiteSpace\<close> and \<^verbatim>\<open>LineTerminator\<close> of ECMAScript: TAB, LF, VT, FF,
  CR, the byte order mark U+FEFF, the separators U+2028 and U+2029, and the space
  separators of Unicode (U+0020, U+00A0, U+1680, U+2000 to U+200A, U+202F, U+205F,
  U+3000).
\<close>

definition isStrWhiteSpaceChar :: "code_unit \<Rightarrow> bool" where
  "isStrWhiteSpaceChar c =
     (c = 0x0009 \<or> c = 0x000A \<or> c = 0x000B \<or> c = 0x000C \<or> c = 0x000D \<or> c = 0x0020
      \<or> c = 0x00A0 \<or> c = 0x1680 \<or> (0x2000 \<le> c \<and> c \<le> 0x200A) \<or> c = 0x2028 \<or> c = 0x2029
      \<or> c = 0x202F \<or> c = 0x205F \<or> c = 0x3000 \<or> c = 0xFEFF)"

definition isDecimalDigit :: "code_unit \<Rightarrow> bool" where
  "isDecimalDigit c = (0x30 \<le> c \<and> c \<le> 0x39)"

definition digitValue :: "code_unit \<Rightarrow> nat" where
  "digitValue c = unat c - 48"

definition decimalValue :: "code_unit list \<Rightarrow> nat" where
  "decimalValue ds = foldl (\<lambda>n c. 10 * n + digitValue c) 0 ds"

text \<open>
  The exponent that an \<^verbatim>\<open>ExponentPart\<close> at the head of the string denotes.  An
  \<^verbatim>\<open>e\<close> that no digit follows is not part of the literal, and neither is anything
  else: both give the exponent 0.
\<close>

definition exponentPart :: "code_unit list \<Rightarrow> int" where
  "exponentPart s =
     (case s of
        [] \<Rightarrow> 0
      | c # t \<Rightarrow>
          if c = 0x65 \<or> c = 0x45 then
            (case t of
               [] \<Rightarrow> 0
             | d # u \<Rightarrow>
                 if d = 0x2B then int (decimalValue (takeWhile isDecimalDigit u))
                 else if d = 0x2D then - int (decimalValue (takeWhile isDecimalDigit u))
                 else int (decimalValue (takeWhile isDecimalDigit t)))
          else 0)"

definition scaleByExponent :: "real \<Rightarrow> int \<Rightarrow> real" where
  "scaleByExponent m e = (if 0 \<le> e then m * 10 ^ nat e else m / 10 ^ nat (- e))"

definition strUnsignedDecimalLiteral :: "code_unit list \<Rightarrow> jsnum" where
  "strUnsignedDecimalLiteral s =
     (if take 8 s = ascii ''Infinity'' then PosInf
      else
        let intDigits = takeWhile isDecimalDigit s;
            afterInt = dropWhile isDecimalDigit s;
            (fracDigits, afterFrac) =
              (case afterInt of
                 [] \<Rightarrow> ([], [])
               | c # t \<Rightarrow>
                   if c = 0x2E then (takeWhile isDecimalDigit t, dropWhile isDecimalDigit t)
                   else ([], afterInt))
        in
          if intDigits = [] \<and> fracDigits = [] then NaN
          else round64 (scaleByExponent
                 (real (decimalValue intDigits)
                   + real (decimalValue fracDigits) / 10 ^ length fracDigits)
                 (exponentPart afterFrac)))"

definition parseFloat :: "code_unit list \<Rightarrow> jsnum" where
  "parseFloat inputString =
     (let trimmedString = dropWhile isStrWhiteSpaceChar inputString
      in case trimmedString of
           [] \<Rightarrow> NaN
         | c # t \<Rightarrow>
             if c = 0x2D then js_neg (strUnsignedDecimalLiteral t)
             else if c = 0x2B then strUnsignedDecimalLiteral t
             else strUnsignedDecimalLiteral trimmedString)"

section \<open>Profile screen: the BMI category\<close>

text \<open>
  \<^verbatim>\<open>
  const getBMICategory = (bmi: number) => {
    if (bmi < 18.5) return { text: 'Underweight', color: '#FF9800' };
    if (bmi < 25) return { text: 'Normal', color: '#4CAF50' };
    if (bmi < 30) return { text: 'Overweight', color: '#FF9800' };
    return { text: 'Obese', color: '#F44336' };
  };
  \<close>
\<close>

record bmi_category =
  bmi_text :: string
  bmi_color :: string

definition getBMICategory :: "jsnum \<Rightarrow> bmi_category" where
  "getBMICategory bmi =
     (if js_lt bmi (Num 18.5) then \<lparr>bmi_text = ''Underweight'', bmi_color = ''#FF9800''\<rparr>
      else if js_lt bmi (Num 25) then \<lparr>bmi_text = ''Normal'', bmi_color = ''#4CAF50''\<rparr>
      else if js_lt bmi (Num 30) then \<lparr>bmi_text = ''Overweight'', bmi_color = ''#FF9800''\<rparr>
      else \<lparr>bmi_text = ''Obese'', bmi_color = ''#F44336''\<rparr>)"

section \<open>Food screen: adding a portion to the log\<close>

text \<open>
  An item of the food database, as \<^verbatim>\<open>selectedFood\<close> holds it, and an entry of the
  day's log, as \<^verbatim>\<open>handleAddFood\<close> builds it.
\<close>

record food_reference =
  name :: string
  kcal_per_100g :: json
  proteins_per_100g :: json
  carbs_per_100g :: json
  fats_per_100g :: json

record entry =
  food_name :: string
  grams :: jsnum
  kcal :: jsnum
  proteins :: jsnum
  carbs :: jsnum
  fats :: jsnum

text \<open>
  The state variables of the screen that \<^verbatim>\<open>handleAddFood\<close> reads or sets.  The
  variable \<^verbatim>\<open>grams\<close>, the text of the input field, is \<open>gramsText\<close> here, since
  \<open>grams\<close> is the field of an entry.
\<close>

record food_state =
  selectedDate :: string
  selectedFood :: "food_reference option"
  gramsText :: "code_unit list"
  todayEntries :: "entry list"
  modalVisible :: bool

text \<open>What the handler does to the outside, in order.\<close>

datatype effect =
    Alert string string
  | Post string "entry list"
  | ConsoleError string

text \<open>
  \<^verbatim>\<open>
  const gramsNum = parseFloat(grams);
  const multiplier = gramsNum / 100;
  const entry = {
    food_name: selectedFood.name,
    grams: gramsNum,
    kcal: selectedFood.kcal_per_100g * multiplier,
    proteins: selectedFood.proteins_per_100g * multiplier,
    carbs: selectedFood.carbs_per_100g * multiplier,
    fats: selectedFood.fats_per_100g * multiplier,
  };
  \<close>
  The entry as a function of \<^verbatim>\<open>selectedFood\<close> and \<^verbatim>\<open>gramsNum\<close>.
\<close>

definition handleAddFood_entry :: "food_reference \<Rightarrow> jsnum \<Rightarrow> entry" where
  "handleAddFood_entry food gramsNum =
     (let multiplier = js_div gramsNum (Num 100)
      in \<lparr>food_name = name food,
          grams = gramsNum,
          kcal = js_mul (ToNumber (kcal_per_100g food)) multiplier,
          proteins = js_mul (ToNumber (proteins_per_100g food)) multiplier,
          carbs = js_mul (ToNumber (carbs_per_100g food)) multiplier,
          fats = js_mul (ToNumber (fats_per_100g food)) multiplier\<rparr>)"

text \<open>
  The handler: the guard \<^verbatim>\<open>!selectedFood || !grams\<close> (no food selected, or the empty
  text), the entry, the request with the extended list, and the state updates once
  the request has succeeded.  \<open>post_ok\<close> says whether the request succeeds.
\<close>

definition handleAddFood :: "bool \<Rightarrow> food_state \<Rightarrow> food_state \<times> effect list" where
  "handleAddFood post_ok st =
     (case selectedFood st of
        None \<Rightarrow> (st, [Alert ''Error'' ''Please enter the amount in grams''])
      | Some food \<Rightarrow>
          if gramsText st = [] then (st, [Alert ''Error'' ''Please enter the amount in grams''])
          else
            let gramsNum = parseFloat (gramsText st);
                newEntries = todayEntries st @ [handleAddFood_entry food gramsNum]
            in if post_ok then
                 (st\<lparr>todayEntries := newEntries, modalVisible := False,
                     selectedFood := None, gramsText := []\<rparr>,
                  [Post (selectedDate st) newEntries, Alert ''Success'' ''Food added to log!''])
               else
                 (st, [Post (selectedDate st) newEntries, ConsoleError ''Error adding food:'',
                       Alert ''Error'' ''Failed to add food'']))"

section \<open>Water screen\<close>

text \<open>
  The day's water log as the backend returns it; \<^verbatim>\<open>waterData\<close> is \<^verbatim>\<open>null\<close> until it
  is loaded, and stays so when loading fails.  The dashboard's \<^verbatim>\<open>water\<close> object has
  the same two fields.
\<close>

record water_log =
  total_intake :: json
  goal_ml :: json

text \<open>
  \<^verbatim>\<open>
  const progress = waterData?.goal_ml
    ? (waterData.total_intake / waterData.goal_ml) * 100
    : 0;
  \<close>
\<close>

definition progress :: "water_log option \<Rightarrow> jsnum" where
  "progress waterData =
     (case waterData of
        None \<Rightarrow> Num 0
      | Some w \<Rightarrow>
          if ToBoolean (goal_ml w)
          then js_mul (js_div (ToNumber (total_intake w)) (ToNumber (goal_ml w))) (Num 100)
          else Num 0)"

text \<open>
  What the screen renders from \<^verbatim>\<open>waterData\<close>: the height of the water level
  (\<^verbatim>\<open>Math.min(progress, 100)\<close>, in percent), the number behind the percentage label
  (\<^verbatim>\<open>progress\<close>, printed with \<^verbatim>\<open>toFixed(0)\<close>), and the two statistics
  \<^verbatim>\<open>waterData?.total_intake || 0\<close> and \<^verbatim>\<open>waterData?.goal_ml || 2000\<close>.
\<close>

record water_view =
  waterLevel_height :: jsnum
  waterPercentage :: jsnum
  consumed_ml :: jsnum
  goal_display_ml :: jsnum

definition optional_field :: "('a \<Rightarrow> json) \<Rightarrow> 'a option \<Rightarrow> json" where
  "optional_field f obj = (case obj of None \<Rightarrow> JUndefined | Some x \<Rightarrow> f x)"

definition Water :: "water_log option \<Rightarrow> water_view" where
  "Water waterData =
     \<lparr>waterLevel_height = Math_min (progress waterData) (Num 100),
      waterPercentage = progress waterData,
      consumed_ml = js_or (optional_field total_intake waterData) 0,
      goal_display_ml = js_or (optional_field goal_ml waterData) 2000\<rparr>"

section \<open>Dashboard screen\<close>

text \<open>
  The profile of the signed-in user (\<^verbatim>\<open>user\<close> of the authentication context, and
  \<^verbatim>\<open>dashboardData.user\<close>), the food totals and the dashboard data.  Each object may
  be missing.
\<close>

record user_profile =
  daily_calorie_target :: json

record food_totals =
  total_kcal :: json

record dashboard_data =
  dd_user :: "user_profile option"
  dd_food :: "food_totals option"
  dd_water :: "water_log option"

datatype js_error = TypeError

text \<open>
  \<^verbatim>\<open>
  const calorieProgress = dashboardData?.user?.daily_calorie_target
    ? (dashboardData.food.total_kcal / dashboardData.user.daily_calorie_target) * 100
    : 0;
  \<close>
  With a truthy target, \<^verbatim>\<open>dashboardData.food.total_kcal\<close> reads a property of
  \<^verbatim>\<open>dashboardData.food\<close> without \<^verbatim>\<open>?.\<close>, which throws when that object is missing.
\<close>

definition calorieProgress :: "dashboard_data option \<Rightarrow> js_error + jsnum" where
  "calorieProgress dashboardData =
     (case dashboardData of
        None \<Rightarrow> Inr (Num 0)
      | Some d \<Rightarrow>
          if ToBoolean (optional_field daily_calorie_target (dd_user d)) then
            (case dd_food d of
               None \<Rightarrow> Inl TypeError
             | Some f \<Rightarrow>
                 Inr (js_mul
                       (js_div (ToNumber (total_kcal f))
                          (ToNumber (optional_field daily_calorie_target (dd_user d))))
                       (Num 100)))
          else Inr (Num 0))"

text \<open>
  \<^verbatim>\<open>
  const waterProgress = dashboardData?.water?.goal_ml
    ? (dashboardData.water.total_intake / dashboardData.water.goal_ml) * 100
    : 0;
  \<close>
\<close>

definition waterProgress :: "dashboard_data option \<Rightarrow> jsnum" where
  "waterProgress dashboardData =
     (case dashboardData of
        None \<Rightarrow> Num 0
      | Some d \<Rightarrow> progress (dd_water d))"

text \<open>
  The number under the label "Remaining":
  \<^verbatim>\<open>
  Math.max(0, (user?.daily_calorie_target || 0) - (dashboardData?.food?.total_kcal || 0))
  \<close>
  where \<^verbatim>\<open>user\<close> is the profile of the authentication context.
\<close>

definition remainingCalories :: "user_profile option \<Rightarrow> dashboard_data option \<Rightarrow> jsnum" where
  "remainingCalories user dashboardData =
     Math_max (Num 0)
       (js_sub (js_or (optional_field daily_calorie_target user) 0)
          (js_or (optional_field total_kcal (Option.bind dashboardData dd_food)) 0))"

text \<open>
  What the screen renders once loading has ended: the widths of the two progress bars
  (\<^verbatim>\<open>Math.min(calorieProgress, 100)\<close> and \<^verbatim>\<open>Math.min(waterProgress, 100)\<close>, in
  percent) and the statistics of the calorie and water cards.  Rendering fails when
  \<^verbatim>\<open>calorieProgress\<close> throws.
\<close>

record dashboard_view =
  calorie_fill_width :: jsnum
  calories_consumed :: jsnum
  calories_target :: jsnum
  calories_remaining :: jsnum
  water_fill_width :: jsnum
  water_consumed_ml :: jsnum
  water_goal_ml :: jsnum

definition Dashboard :: "user_profile option \<Rightarrow> dashboard_data option \<Rightarrow> js_error + dashboard_view" where
  "Dashboard user dashboardData =
     (case calorieProgress dashboardData of
        Inl e \<Rightarrow> Inl e
      | Inr cp \<Rightarrow>
          Inr \<lparr>calorie_fill_width = Math_min cp (Num 100),
               calories_consumed =
                 js_or (optional_field total_kcal (Option.bind dashboardData dd_food)) 0,
               calories_target = js_or (optional_field daily_calorie_target user) 0,
               calories_remaining = remainingCalories user dashboardData,
               water_fill_width = Math_min (waterProgress dashboardData) (Num 100),
               water_consumed_ml =
                 js_or (optional_field total_intake (Option.bind dashboardData dd_water)) 0,
               water_goal_ml =
                 js_or (optional_field goal_ml (Option.bind dashboardData dd_water)) 2000\<rparr>)"

section \<open>The specification's words\<close>

text \<open>
  The value of a numeric field with a missing (or \<^verbatim>\<open>null\<close>) field read as 0, as the
  specification words it.
\<close>

fun value_or_zero :: "json \<Rightarrow> real" where
  "value_or_zero (JNumber r) = r"
| "value_or_zero JUndefined = 0"
| "value_or_zero JNull = 0"

text \<open>A percentage "lies in [0,100]": it is a finite number between 0 and 100.\<close>

fun in_percent_range :: "jsnum \<Rightarrow> bool" where
  "in_percent_range (Num r) = (0 \<le> r \<and> r \<le> 100)"
| "in_percent_range PosInf = False"
| "in_percent_range NegInf = False"
| "in_percent_range NaN = False"

text \<open>A goal that is not negative: a number that is at least 0, or no number at all.\<close>

fun goal_not_negative :: "json \<Rightarrow> bool" where
  "goal_not_negative (JNumber g) = (0 \<le> g)"
| "goal_not_negative JUndefined = True"
| "goal_not_negative JNull = True"

text \<open>
  A real that is a double: rounding to the nearest double leaves it as it is.
\<close>

definition is_double :: "real \<Rightarrow> bool" where
  "is_double x = (round64 x = Num x)"

section \<open>Evaluating the model\<close>

lemma bitlen_step: "0 < x \<Longrightarrow> bitlen x = bitlen (x div 2) + 1"
  by (subst compute_bitlen) simp

lemmas round64_eval =
  round64_def round_at_def signed_result_def floor_log2_def pow2_def round_half_even_def
  nearest_even_def bitlen_step

lemmas parseFloat_defs =
  parseFloat_def strUnsignedDecimalLiteral_def isStrWhiteSpaceChar_def isDecimalDigit_def
  digitValue_def decimalValue_def exponentPart_def scaleByExponent_def ascii_def

lemma parseFloat_50: "parseFloat (ascii ''50'') = Num 50"
  by (simp add: parseFloat_defs round64_eval)

lemma parseFloat_0: "parseFloat (ascii ''0'') = Num 0"
  by (simp add: parseFloat_defs round64_eval)

lemma parseFloat_minus_50: "parseFloat (ascii ''-50'') = Num (- 50)"
  by (simp add: parseFloat_defs round64_eval)

lemma parseFloat_7: "parseFloat (ascii ''7'') = Num 7"
  by (simp add: parseFloat_defs round64_eval)

lemma ascii_nonempty: "ascii ''7'' \<noteq> [] \<and> ascii ''50'' \<noteq> [] \<and> ascii ''-50'' \<noteq> [] \<and> ascii ''0'' \<noteq> []"
  by (simp add: ascii_def)

section \<open>Properties of rounding\<close>

lemma round_half_even_nonneg: "0 \<le> x \<Longrightarrow> 0 \<le> round_half_even x"
  by (auto simp: round_half_even_def nearest_even_def)

lemma pow2_pos: "0 < pow2 e"
  by (simp add: pow2_def)

lemma round64_pos:
  assumes "0 < x"
  shows "round64 x = PosInf \<or> (\<exists>y\<ge>0. round64 x = Num y)"
proof -
  have "0 \<le> of_int (round_half_even (\<bar>x\<bar> / pow2 e)) * pow2 e" for e
    using round_half_even_nonneg [of "\<bar>x\<bar> / pow2 e"] pow2_pos [of e]
    by (simp add: less_imp_le)
  then show ?thesis
    using assms by (auto simp: round64_def round_at_def signed_result_def)
qed

lemma round64_neg:
  assumes "x < 0"
  shows "round64 x = NegInf \<or> (\<exists>y\<le>0. round64 x = Num y)"
proof -
  have "0 \<le> of_int (round_half_even (\<bar>x\<bar> / pow2 e)) * pow2 e" for e
    using round_half_even_nonneg [of "\<bar>x\<bar> / pow2 e"] pow2_pos [of e]
    by (simp add: less_imp_le)
  then show ?thesis
    using assms by (auto simp: round64_def round_at_def signed_result_def)
qed

lemma round64_0: "round64 0 = Num 0"
  by (simp add: round64_def)

lemma round64_nonneg:
  assumes "0 \<le> x"
  shows "round64 x = PosInf \<or> (\<exists>y\<ge>0. round64 x = Num y)"
proof (cases "x = 0")
  case True
  then show ?thesis by (simp add: round64_0)
next
  case False
  with assms have "0 < x" by simp
  then show ?thesis by (rule round64_pos)
qed


text \<open>
  \<open>floor_log2\<close> is the binary exponent, rounding to an integer is to a nearest one,
  and a rounded result is within half a unit of the last place.
\<close>

lemma pow2_nonneg_eq: "0 \<le> e \<Longrightarrow> pow2 e = 2 ^ nat e"
  by (simp add: pow2_def)

lemma pow2_neg_eq: "e \<le> 0 \<Longrightarrow> pow2 e = 1 / 2 ^ nat (- e)"
  by (cases "e = 0") (simp_all add: pow2_def)

lemma floor_log2_bounds_ge1:
  assumes "1 \<le> a"
  shows "pow2 (floor_log2 a) \<le> a \<and> a < pow2 (floor_log2 a + 1)"
proof -
  let ?n = "\<lfloor>a\<rfloor>"
  have n: "0 < ?n" using assms by simp
  have b1: "1 \<le> bitlen ?n" using n by (simp add: bitlen_alt_def)
  from bitlen_bounds [OF n]
  have lo: "2 ^ nat (bitlen ?n - 1) \<le> ?n" and hi: "?n < 2 ^ nat (bitlen ?n)" by simp_all
  have k: "floor_log2 a = bitlen ?n - 1" using assms by (simp add: floor_log2_def)
  have "(2::real) ^ nat (bitlen ?n - 1) \<le> of_int ?n"
    using lo by (metis of_int_le_iff of_int_numeral of_int_power)
  also have "\<dots> \<le> a" by simp
  finally have l: "pow2 (floor_log2 a) \<le> a"
    using b1 by (simp add: k pow2_nonneg_eq)
  have "?n + 1 \<le> 2 ^ nat (bitlen ?n)" using hi by simp
  then have "of_int (?n + 1) \<le> (2::real) ^ nat (bitlen ?n)"
    by (metis of_int_le_iff of_int_numeral of_int_power)
  moreover have "a < of_int (?n + 1)" by simp
  ultimately have "a < 2 ^ nat (bitlen ?n)" by linarith
  then have h: "a < pow2 (floor_log2 a + 1)"
    using b1 by (simp add: k pow2_nonneg_eq)
  from l h show ?thesis ..
qed

lemma floor_log2_bounds_lt1:
  assumes "0 < a" and "a < 1"
  shows "pow2 (floor_log2 a) \<le> a \<and> a < pow2 (floor_log2 a + 1)"
proof -
  let ?b = "1 / a"
  let ?m = "\<lceil>?b\<rceil> - 1"
  have b: "1 < ?b" using assms by simp
  then have "2 \<le> \<lceil>?b\<rceil>" by linarith
  then have m: "0 < ?m" by simp
  have j1: "1 \<le> bitlen ?m" using m by (simp add: bitlen_alt_def)
  from bitlen_bounds [OF m]
  have lo: "2 ^ nat (bitlen ?m - 1) \<le> ?m" and hi: "?m < 2 ^ nat (bitlen ?m)" by simp_all
  have k: "floor_log2 a = - bitlen ?m" using assms by (simp add: floor_log2_def)
  have "?m + 1 \<le> 2 ^ nat (bitlen ?m)" using hi by simp
  then have "of_int (?m + 1) \<le> (2::real) ^ nat (bitlen ?m)"
    by (metis of_int_le_iff of_int_numeral of_int_power)
  moreover have "?b \<le> of_int (?m + 1)" by simp
  ultimately have "?b \<le> 2 ^ nat (bitlen ?m)" by linarith
  then have "1 / 2 ^ nat (bitlen ?m) \<le> a"
    using assms(1) by (simp add: field_simps)
  then have l: "pow2 (floor_log2 a) \<le> a"
    using j1 by (simp add: k pow2_neg_eq)
  have "(2::real) ^ nat (bitlen ?m - 1) \<le> of_int ?m"
    using lo by (metis of_int_le_iff of_int_numeral of_int_power)
  moreover have "of_int ?m < ?b" by simp linarith
  ultimately have "(2::real) ^ nat (bitlen ?m - 1) < ?b" by linarith
  then have "a < 1 / 2 ^ nat (bitlen ?m - 1)"
    using assms(1) by (simp add: field_simps)
  moreover have "pow2 (floor_log2 a + 1) = 1 / 2 ^ nat (bitlen ?m - 1)"
    using j1 by (simp add: k pow2_neg_eq)
  ultimately have h: "a < pow2 (floor_log2 a + 1)" by simp
  from l h show ?thesis ..
qed

lemma floor_log2_bounds:
  "0 < a \<Longrightarrow> pow2 (floor_log2 a) \<le> a \<and> a < pow2 (floor_log2 a + 1)"
  using floor_log2_bounds_ge1 [of a] floor_log2_bounds_lt1 [of a] by (cases "1 \<le> a") simp_all

lemma round_half_even_nearest: "\<bar>x - of_int (round_half_even x)\<bar> \<le> 1 / 2"
  by (simp add: round_half_even_def nearest_even_def)

lemma round_at_error:
  assumes "round_at e x = Num y"
  shows "\<bar>y - x\<bar> \<le> pow2 e / 2"
proof -
  let ?m = "round_half_even (\<bar>x\<bar> / pow2 e)"
  have p: "0 < pow2 e" by (simp add: pow2_def)
  have "\<bar>\<bar>x\<bar> / pow2 e - of_int ?m\<bar> \<le> 1 / 2"
    by (rule round_half_even_nearest)
  then have "\<bar>\<bar>x\<bar> / pow2 e - of_int ?m\<bar> * pow2 e \<le> 1 / 2 * pow2 e"
    using p by (simp only: mult_le_cancel_right_pos)
  moreover have "(\<bar>x\<bar> / pow2 e - of_int ?m) * pow2 e = \<bar>x\<bar> - of_int ?m * pow2 e"
    using p by (simp add: field_simps)
  then have "\<bar>\<bar>x\<bar> / pow2 e - of_int ?m\<bar> * pow2 e = \<bar>\<bar>x\<bar> - of_int ?m * pow2 e\<bar>"
    using p by (metis abs_mult abs_of_pos)
  ultimately have d: "\<bar>\<bar>x\<bar> - of_int ?m * pow2 e\<bar> \<le> pow2 e / 2" by simp
  define z where "z = of_int ?m * pow2 e"
  from assms have y: "y = (if 0 < x then z else - z)"
    by (auto simp: round_at_def signed_result_def z_def split: if_splits)
  from d have "\<bar>\<bar>x\<bar> - z\<bar> \<le> pow2 e / 2"
    by (simp only: z_def)
  with y show ?thesis
    by (cases "0 < x") (auto simp: abs_if split: if_splits)
qed

lemma round64_error:
  assumes "x \<noteq> 0" and "round64 x = Num y"
  shows "\<bar>y - x\<bar> \<le> pow2 (max (floor_log2 \<bar>x\<bar> - 52) (- 1074)) / 2"
  using assms round_at_error [of "max (floor_log2 \<bar>x\<bar> - 52) (- 1074)" x y]
  by (simp add: round64_def)

text \<open>Some values: 0.1, and a tie below and above an even significand.\<close>

lemma round64_examples:
  "round64 (1 / 10) = Num (3602879701896397 / 36028797018963968)"
  "round64 (2 ^ 53 + 1) = Num (2 ^ 53)"
  "round64 (2 ^ 53 + 3) = Num (2 ^ 53 + 4)"
  by (simp_all add: round64_eval)

text \<open>
  A real of \<open>2 ^ 1024\<close> or more rounds to an infinity, and a positive real below
  \<open>1 / 2 ^ 1075\<close>, half the least positive double, rounds to 0.
\<close>

lemma pow2_add1: "pow2 (e + 1) = 2 * pow2 e"
proof (cases "0 \<le> e")
  case True
  then show ?thesis by (simp add: pow2_def nat_add_distrib)
next
  case False
  then have "nat (- e) = Suc (nat (- (e + 1)))" by simp
  with False show ?thesis by (simp add: pow2_def del: nat_minus_as_int)
qed

lemma pow2_mono: "d \<le> e \<Longrightarrow> pow2 d \<le> pow2 e"
proof -
  have "pow2 d \<le> pow2 (d + int n)" for n
  proof (induction n)
    case 0
    then show ?case by simp
  next
    case (Suc n)
    have "pow2 (d + int (Suc n)) = 2 * pow2 (d + int n)"
      using pow2_add1 [of "d + int n"] by (simp add: ac_simps)
    with Suc pow2_pos [of "d + int n"] show ?case by simp
  qed
  from this [of "nat (e - d)"] show "d \<le> e \<Longrightarrow> pow2 d \<le> pow2 e" by simp
qed

lemma round_half_even_ge_floor: "\<lfloor>x\<rfloor> \<le> round_half_even x"
  by (simp add: round_half_even_def nearest_even_def)

lemma round64_overflow:
  assumes "2 ^ 1024 \<le> x"
  shows "round64 x = PosInf"
proof -
  have x: "0 < x" using assms by (smt (verit) zero_less_power)
  let ?n = "floor_log2 \<bar>x\<bar>"
  let ?e = "max (?n - 52) (- 1074)"
  from floor_log2_bounds [of "\<bar>x\<bar>"] x
  have lo: "pow2 ?n \<le> x" and hi: "x < pow2 (?n + 1)" by simp_all
  have n: "1024 \<le> ?n"
  proof (rule ccontr)
    assume "\<not> 1024 \<le> ?n"
    then have "?n + 1 \<le> 1024" by simp
    then have "pow2 (?n + 1) \<le> pow2 1024" by (rule pow2_mono)
    also have "\<dots> = 2 ^ 1024" by (simp add: pow2_def)
    finally show False using hi assms by simp
  qed
  then have e: "?e = ?n - 52" by simp
  have p: "0 < pow2 ?e" by (rule pow2_pos)
  have "nat ?n = 52 + nat (?n - 52)"
    using n by simp
  then have "(2::real) ^ nat ?n = 2 ^ 52 * 2 ^ nat (?n - 52)"
    by (metis power_add)
  then have "pow2 ?n = 2 ^ 52 * pow2 ?e"
    using n by (simp only: e pow2_def) simp
  with lo have "2 ^ 52 * pow2 ?e \<le> x" by simp
  then have "2 ^ 52 \<le> x / pow2 ?e" using p by (simp add: field_simps)
  then have "2 ^ 52 \<le> \<lfloor>x / pow2 ?e\<rfloor>" by (simp add: le_floor_iff)
  with round_half_even_ge_floor [of "x / pow2 ?e"]
  have "2 ^ 52 \<le> round_half_even (x / pow2 ?e)" by linarith
  then have "(2::real) ^ 52 \<le> of_int (round_half_even (x / pow2 ?e))"
    by (metis of_int_le_iff of_int_numeral of_int_power)
  then have "2 ^ 52 * pow2 ?e \<le> of_int (round_half_even (x / pow2 ?e)) * pow2 ?e"
    using p by (simp only: mult_le_cancel_right_pos)
  moreover have "2 ^ 1024 \<le> pow2 ?n"
    using pow2_mono [OF n] by (simp add: pow2_def)
  ultimately have "2 ^ 1024 \<le> of_int (round_half_even (x / pow2 ?e)) * pow2 ?e"
    using \<open>pow2 ?n = 2 ^ 52 * pow2 ?e\<close> by linarith
  then show ?thesis
    using x by (simp add: round64_def round_at_def signed_result_def)
qed


lemma round64_underflow:
  assumes "0 < x" and "x < 1 / 2 ^ 1075"
  shows "round64 x = Num 0"
proof -
  define P :: real where "P = 2 ^ 1074"
  have P: "0 < P" by (simp only: P_def zero_less_power zero_less_numeral)
  have "(2::real) ^ Suc 1074 = 2 * 2 ^ 1074" by (rule power_Suc)
  moreover have "Suc 1074 = 1075" by simp
  ultimately have P2: "(2::real) ^ 1075 = 2 * P" by (simp only: P_def)
  let ?n = "floor_log2 \<bar>x\<bar>"
  from floor_log2_bounds [of "\<bar>x\<bar>"] assms(1)
  have lo: "pow2 ?n \<le> x" by simp
  have p5: "pow2 (- 1075) = 1 / 2 ^ 1075"
    by (simp only: pow2_def) simp
  have n: "?n < - 1075"
  proof (rule ccontr)
    assume "\<not> ?n < - 1075"
    then have "- 1075 \<le> ?n" by simp
    then have "pow2 (- 1075) \<le> pow2 ?n" by (rule pow2_mono)
    with lo assms(2) show False by (simp only: p5)
  qed
  then have e: "max (?n - 52) (- 1074) = - 1074" by simp
  have p: "pow2 (- 1074) = 1 / P"
    by (simp only: pow2_def P_def) simp
  from assms(2) have "x < 1 / (2 * P)" by (simp only: P2)
  then have q: "x * P < 1 / 2"
    using P by (simp add: field_simps)
  have q0: "0 \<le> x * P" using assms(1) P by simp
  from q q0 have f: "\<lfloor>x * P\<rfloor> = 0" by (simp add: floor_eq_iff)
  have "round_half_even (x * P) = 0"
    using q by (simp add: round_half_even_def nearest_even_def f)
  moreover have "\<bar>x\<bar> / pow2 (- 1074) = x * P"
    using assms(1) by (simp add: p)
  ultimately have "round_half_even (\<bar>x\<bar> / pow2 (- 1074)) = 0"
    by (simp only:)
  then have "round_at (- 1074) x = Num 0"
    using assms(1) by (simp add: round_at_def signed_result_def)
  then show ?thesis
    using assms(1) by (simp only: round64_def e) simp
qed

text \<open>
  \<^verbatim>\<open>parseFloat\<close> beyond the range of the doubles, and after a no-break space.
\<close>

lemma parseFloat_overflow: "parseFloat (ascii ''1e400'') = PosInf"
proof -
  have "(2::real) ^ 1024 \<le> 10 ^ 400" by simp
  from round64_overflow [OF this] show ?thesis
    by (simp add: parseFloat_defs)
qed

lemma parseFloat_underflow: "parseFloat (ascii ''1e-400'') = Num 0"
proof -
  have "(0::real) < 1 / 10 ^ 400" "(1::real) / 10 ^ 400 < 1 / 2 ^ 1075" by simp_all
  from round64_underflow [OF this] show ?thesis
    by (simp add: parseFloat_defs)
qed

lemma parseFloat_no_break_space: "parseFloat [0x00A0, 0x35, 0x30] = Num 50"
  by (simp add: parseFloat_defs round64_eval)

section \<open>Properties of the operators\<close>

lemma Math_min_Num: "Math_min (Num a) (Num b) = Num (min a b)"
  by (simp add: min_def)

lemma Math_max_Num: "Math_max (Num a) (Num b) = Num (max a b)"
  by (simp add: max_def)

lemma js_or_zero: "js_or x 0 = Num (value_or_zero x)"
  by (cases x) simp_all


lemma Math_min_100_upper: "\<not> js_lt (Num 100) (Math_min x (Num 100))"
  by (cases x) simp_all

lemma scale_exact:
  assumes "is_double (g / 100)" and "is_double (x * g / 100)"
  shows "js_mul (Num x) (js_div (Num g) (Num 100)) = Num (x * g / 100)"
proof -
  have "js_div (Num g) (Num 100) = Num (g / 100)"
    using assms(1) by (simp add: is_double_def)
  moreover have "js_mul (Num x) (Num (g / 100)) = Num (x * g / 100)"
    using assms(2) by (simp add: is_double_def)
  ultimately show ?thesis by simp
qed


lemma ratio_exact:
  assumes "g \<noteq> 0" and "is_double (c / g)" and "is_double (c / g * 100)"
  shows "js_mul (js_div (Num c) (Num g)) (Num 100) = Num (c / g * 100)"
proof -
  have "js_div (Num c) (Num g) = Num (c / g)"
    using assms(1,2) by (simp add: is_double_def)
  moreover have "js_mul (Num (c / g)) (Num 100) = Num (c / g * 100)"
    using assms(3) by (simp add: is_double_def)
  ultimately show ?thesis by simp
qed

lemma ratio_nonnegative:
  assumes "0 \<le> c" and "0 < g"
  shows "js_mul (js_div (Num c) (Num g)) (Num 100) = PosInf
     \<or> (\<exists>r\<ge>0. js_mul (js_div (Num c) (Num g)) (Num 100) = Num r)"
proof -
  have q: "js_div (Num c) (Num g) = round64 (c / g)"
    using assms(2) by simp
  have i: "js_mul PosInf (Num 100) = PosInf"
    by (simp add: inf_of_sign_def)
  have "0 \<le> c / g"
    using assms by simp
  from round64_nonneg [OF this] show ?thesis
  proof
    assume "round64 (c / g) = PosInf"
    then have "js_mul (js_div (Num c) (Num g)) (Num 100) = PosInf"
      by (simp only: q i)
    then show ?thesis ..
  next
    assume "\<exists>y\<ge>0. round64 (c / g) = Num y"
    then obtain y where y: "0 \<le> y" "round64 (c / g) = Num y" by blast
    then have "0 \<le> y * 100" by simp
    from round64_nonneg [OF this]
    have "round64 (y * 100) = PosInf \<or> (\<exists>r\<ge>0. round64 (y * 100) = Num r)" .
    moreover have "js_mul (js_div (Num c) (Num g)) (Num 100) = round64 (y * 100)"
      by (simp only: q y(2) js_mul.simps)
    ultimately show ?thesis by (simp only:)
  qed
qed

lemma Math_min_100_range:
  "x = PosInf \<or> (\<exists>r\<ge>0. x = Num r) \<Longrightarrow> in_percent_range (Math_min x (Num 100))"
  by auto

lemma ratio_eval:
  "js_mul (js_div (Num 1500) (Num 2000)) (Num 100) = Num 75"
  "js_mul (js_div (Num 2500) (Num 2000)) (Num 100) = Num 125"
  "js_mul (js_div (Num 500) (Num (- 2000))) (Num 100) = Num (- 25)"
  "js_mul (js_div (Num 1500) (Num (- 2000))) (Num 100) = Num (- 75)"
  by (simp_all add: round64_eval)

lemma Math_max_0_round64: "Math_max (Num 0) (round64 d) = round64 (max 0 d)"
proof -
  consider "d = 0" | "d < 0" | "0 < d" by linarith
  then show ?thesis
  proof cases
    case 1
    then show ?thesis by (simp add: round64_0)
  next
    case 2
    then have m: "max 0 d = 0" by simp
    from round64_neg [OF 2] show ?thesis
      by (auto simp: m round64_0)
  next
    case 3
    then have m: "max 0 d = d" by simp
    from round64_pos [OF 3] show ?thesis
      by (auto simp: m)
  qed
qed

lemma round64_max_0_not_negative: "\<not> js_lt (round64 (max 0 d)) (Num 0)"
proof -
  have "0 \<le> max 0 d" by simp
  from round64_nonneg [OF this] show ?thesis by auto
qed

section \<open>The BMI category\<close>

text \<open>
  Claim C2.  \<^verbatim>\<open>getBMICategory\<close> gives every finite bmi, so every positive one, exactly
  one of the four labels, by fixed thresholds that do not overlap: below 18.5 it is
  Underweight, from 18.5 and below 25 Normal, from 25 and below 30 Overweight, from 30
  on Obese.  In particular 24.9 is Normal and 25.0 is Overweight.
\<close>

theorem getBMICategory_partition:
  "(bmi_text (getBMICategory (Num x)) = ''Underweight'' \<longleftrightarrow> x < 18.5)
   \<and> (bmi_text (getBMICategory (Num x)) = ''Normal'' \<longleftrightarrow> 18.5 \<le> x \<and> x < 25)
   \<and> (bmi_text (getBMICategory (Num x)) = ''Overweight'' \<longleftrightarrow> 25 \<le> x \<and> x < 30)
   \<and> (bmi_text (getBMICategory (Num x)) = ''Obese'' \<longleftrightarrow> 30 \<le> x)
   \<and> bmi_text (getBMICategory (Num x)) \<in> {''Underweight'', ''Normal'', ''Overweight'', ''Obese''}
   \<and> bmi_text (getBMICategory (Num 24.9)) = ''Normal''
   \<and> bmi_text (getBMICategory (Num 25.0)) = ''Overweight''"
  by (simp add: getBMICategory_def)

text \<open>
  The theorem at the two sides of the boundary 25.
\<close>

theorem getBMICategory_partition_witness:
  "bmi_text (getBMICategory (Num 24.9)) = ''Normal''
   \<and> \<not> (25 \<le> (24.9::real))
   \<and> bmi_text (getBMICategory (Num 25)) = ''Overweight''
   \<and> bmi_text (getBMICategory (Num 25)) \<noteq> ''Normal''"
  using getBMICategory_partition [of "24.9"] getBMICategory_partition [of 25]
  by simp

text \<open>
  Claim C6, as amended.  \<^verbatim>\<open>getBMICategory\<close> has no failure: for every bmi that is 0 or
  negative it returns the category Underweight, as for every other bmi below 18.5.
\<close>

theorem getBMICategory_nonpositive:
  assumes "x \<le> 0"
  shows "getBMICategory (Num x) = \<lparr>bmi_text = ''Underweight'', bmi_color = ''#FF9800''\<rparr>"
  using assms by (simp add: getBMICategory_def)

text \<open>
  The theorem at the bmi \<open>- 3\<close>.
\<close>

theorem getBMICategory_nonpositive_witness:
  "(- 3::real) \<le> 0
   \<and> getBMICategory (Num (- 3)) = \<lparr>bmi_text = ''Underweight'', bmi_color = ''#FF9800''\<rparr>"
  using getBMICategory_nonpositive [of "- 3"] by simp

text \<open>
  The bmi 0 is classified, where the specification has the classification fail.
\<close>

theorem getBMICategory_zero_counterexample:
  "getBMICategory (Num 0) = \<lparr>bmi_text = ''Underweight'', bmi_color = ''#FF9800''\<rparr>"
  by (simp add: getBMICategory_def)

section \<open>Scaling a portion\<close>

lemma handleAddFood_accepted:
  assumes "selectedFood st = Some food" and "gramsText st \<noteq> []"
  shows "handleAddFood post_ok st =
    (if post_ok then
       (st\<lparr>todayEntries := todayEntries st @ [handleAddFood_entry food (parseFloat (gramsText st))],
           modalVisible := False, selectedFood := None, gramsText := []\<rparr>,
        [Post (selectedDate st)
           (todayEntries st @ [handleAddFood_entry food (parseFloat (gramsText st))]),
         Alert ''Success'' ''Food added to log!''])
     else
       (st,
        [Post (selectedDate st)
           (todayEntries st @ [handleAddFood_entry food (parseFloat (gramsText st))]),
         ConsoleError ''Error adding food:'', Alert ''Error'' ''Failed to add food'']))"
  using assms by (simp add: handleAddFood_def Let_def)

lemma handleAddFood_rejected:
  assumes "selectedFood st = None \<or> gramsText st = []"
  shows "handleAddFood post_ok st = (st, [Alert ''Error'' ''Please enter the amount in grams''])"
  using assms by (auto simp: handleAddFood_def split: option.splits)

lemma handleAddFood_entry_numeric:
  assumes "kcal_per_100g food = JNumber k" and "proteins_per_100g food = JNumber p"
    and "carbs_per_100g food = JNumber c" and "fats_per_100g food = JNumber f"
  shows "handleAddFood_entry food (Num g) =
    \<lparr>food_name = name food, grams = Num g,
     kcal = js_mul (Num k) (js_div (Num g) (Num 100)),
     proteins = js_mul (Num p) (js_div (Num g) (Num 100)),
     carbs = js_mul (Num c) (js_div (Num g) (Num 100)),
     fats = js_mul (Num f) (js_div (Num g) (Num 100))\<rparr>"
  using assms by (simp add: handleAddFood_entry_def Let_def)

text \<open>
  Claim C1, as amended.  When a food with numeric fields is selected and the text of the
  input parses to the quantity \<open>g\<close>, the entry that \<^verbatim>\<open>handleAddFood\<close> sends to the log,
  and appends to the day's entries once the request has succeeded, has each nutrient
  field equal to the per-100g field multiplied, in double arithmetic, by the quotient
  \<open>g / 100\<close>: the quotient is rounded to the nearest double \<open>q\<close>, and the field is the
  product of the per-100g field and \<open>q\<close>, rounded again.  Whenever neither step rounds,
  the field is exactly the per-100g field times \<open>g\<close> over 100.
\<close>

theorem handleAddFood_scales_fields:
  assumes "selectedFood st = Some food" and "gramsText st \<noteq> []"
    and "parseFloat (gramsText st) = Num g"
    and "kcal_per_100g food = JNumber k" and "proteins_per_100g food = JNumber p"
    and "carbs_per_100g food = JNumber c" and "fats_per_100g food = JNumber f"
  shows "Post (selectedDate st)
           (todayEntries st @
             [\<lparr>food_name = name food, grams = Num g,
               kcal = js_mul (Num k) (js_div (Num g) (Num 100)),
               proteins = js_mul (Num p) (js_div (Num g) (Num 100)),
               carbs = js_mul (Num c) (js_div (Num g) (Num 100)),
               fats = js_mul (Num f) (js_div (Num g) (Num 100))\<rparr>])
           \<in> set (snd (handleAddFood post_ok st))
       \<and> todayEntries (fst (handleAddFood True st)) =
           todayEntries st @
             [\<lparr>food_name = name food, grams = Num g,
               kcal = js_mul (Num k) (js_div (Num g) (Num 100)),
               proteins = js_mul (Num p) (js_div (Num g) (Num 100)),
               carbs = js_mul (Num c) (js_div (Num g) (Num 100)),
               fats = js_mul (Num f) (js_div (Num g) (Num 100))\<rparr>]
       \<and> (round64 (g / 100) = Num q \<longrightarrow>
            js_mul (Num x) (js_div (Num g) (Num 100)) = round64 (x * q))
       \<and> (is_double (g / 100) \<and> is_double (x * g / 100) \<longrightarrow>
            js_mul (Num x) (js_div (Num g) (Num 100)) = Num (x * g / 100))"
proof -
  have "round64 (g / 100) = Num q \<longrightarrow>
      js_mul (Num x) (js_div (Num g) (Num 100)) = round64 (x * q)"
    by simp
  with assms scale_exact [of g x] show ?thesis
    by (simp add: handleAddFood_accepted [OF assms(1,2)]
          handleAddFood_entry_numeric [OF assms(4-7)] del: js_mul.simps js_div.simps)
qed

text \<open>
  The theorem at 50 grams of a food with 200 kcal per 100 g, where no step rounds:
  the entry has 100 kcal.
\<close>

theorem handleAddFood_scales_fields_witness:
  "selectedFood \<lparr>selectedDate = ''2024-05-01'',
       selectedFood = Some \<lparr>name = ''Rice'', kcal_per_100g = JNumber 200,
         proteins_per_100g = JNumber 4, carbs_per_100g = JNumber 44, fats_per_100g = JNumber 1\<rparr>,
       gramsText = ascii ''50'', todayEntries = [], modalVisible = True\<rparr>
     = Some \<lparr>name = ''Rice'', kcal_per_100g = JNumber 200,
         proteins_per_100g = JNumber 4, carbs_per_100g = JNumber 44, fats_per_100g = JNumber 1\<rparr>
   \<and> ascii ''50'' \<noteq> []
   \<and> parseFloat (ascii ''50'') = Num 50
   \<and> round64 (50 / 100) = Num (1 / 2)
   \<and> is_double (50 / 100) \<and> is_double (200 * 50 / 100)
   \<and> js_mul (Num 200) (js_div (Num 50) (Num 100)) = Num 100
   \<and> todayEntries (fst (handleAddFood True
        \<lparr>selectedDate = ''2024-05-01'',
         selectedFood = Some \<lparr>name = ''Rice'', kcal_per_100g = JNumber 200,
           proteins_per_100g = JNumber 4, carbs_per_100g = JNumber 44, fats_per_100g = JNumber 1\<rparr>,
         gramsText = ascii ''50'', todayEntries = [], modalVisible = True\<rparr>))
     = [\<lparr>food_name = ''Rice'', grams = Num 50, kcal = Num 100,
         proteins = Num 2, carbs = Num 22, fats = Num (1 / 2)\<rparr>]"
proof -
  have d: "is_double (50 / 100)" "is_double (200 * 50 / 100)" "is_double (4 * 50 / 100)"
    "is_double (44 * 50 / 100)" "is_double (1 * 50 / 100)"
    by (simp_all add: is_double_def round64_eval)
  have n: "ascii ''50'' \<noteq> []"
    by (simp add: ascii_def)
  note t = handleAddFood_scales_fields
    [of "\<lparr>selectedDate = ''2024-05-01'',
         selectedFood = Some \<lparr>name = ''Rice'', kcal_per_100g = JNumber 200,
           proteins_per_100g = JNumber 4, carbs_per_100g = JNumber 44, fats_per_100g = JNumber 1\<rparr>,
         gramsText = ascii ''50'', todayEntries = [], modalVisible = True\<rparr>"
        "\<lparr>name = ''Rice'', kcal_per_100g = JNumber 200,
           proteins_per_100g = JNumber 4, carbs_per_100g = JNumber 44, fats_per_100g = JNumber 1\<rparr>"
        50 200 4 44 1 True]
  have r: "round64 (50 / 100) = Num (1 / 2)"
    by (simp add: round64_eval)
  from t [of "1 / 2" 200] t [of "1 / 2" 4] t [of "1 / 2" 44] t [of "1 / 2" 1] d n r show ?thesis
    by (simp add: parseFloat_50)
qed

text \<open>
  At 7 grams of the same food the quotient 0.07 is no double, and the entry has
  14.000000000000002 kcal (14 and \<open>1 / 2 ^ 49\<close>), where \<open>200 * 7 / 100\<close> is 14.
\<close>

theorem handleAddFood_rounded_kcal_counterexample:
  "handleAddFood True
     \<lparr>selectedDate = ''2024-05-01'',
      selectedFood = Some \<lparr>name = ''Rice'', kcal_per_100g = JNumber 200,
        proteins_per_100g = JNumber 4, carbs_per_100g = JNumber 44, fats_per_100g = JNumber 1\<rparr>,
      gramsText = ascii ''7'', todayEntries = [], modalVisible = True\<rparr>
   = (\<lparr>selectedDate = ''2024-05-01'', selectedFood = None, gramsText = [],
       todayEntries = [\<lparr>food_name = ''Rice'', grams = Num 7,
         kcal = Num (7881299347898369 / 562949953421312),
         proteins = Num (1261007895663739 / 4503599627370496),
         carbs = Num (1733885856537641 / 562949953421312),
         fats = Num (1261007895663739 / 18014398509481984)\<rparr>],
       modalVisible = False\<rparr>,
      [Post ''2024-05-01'' [\<lparr>food_name = ''Rice'', grams = Num 7,
         kcal = Num (7881299347898369 / 562949953421312),
         proteins = Num (1261007895663739 / 4503599627370496),
         carbs = Num (1733885856537641 / 562949953421312),
         fats = Num (1261007895663739 / 18014398509481984)\<rparr>],
       Alert ''Success'' ''Food added to log!''])
   \<and> (7881299347898369 / 562949953421312 :: real) \<noteq> 200 * 7 / 100"
  by (simp add: handleAddFood_def handleAddFood_entry_def Let_def parseFloat_7 ascii_nonempty round64_eval)




text \<open>
  Claim C5, as amended.  \<^verbatim>\<open>handleAddFood\<close> rejects a call, with an error alert and
  nothing built or sent, when no food is selected or the text of the input is empty.
  Every other call builds the entry from whatever the text parses to, sends it to the
  log and, once the request has succeeded, appends it to the day's entries; a quantity
  that is 0 or negative, a text that is no number and a missing reference field are
  not rejected.
\<close>

theorem handleAddFood_guard:
  "(selectedFood st = None \<or> gramsText st = [] \<longrightarrow>
      handleAddFood post_ok st = (st, [Alert ''Error'' ''Please enter the amount in grams'']))
   \<and> (selectedFood st = Some food \<and> gramsText st \<noteq> [] \<longrightarrow>
        Post (selectedDate st)
          (todayEntries st @ [handleAddFood_entry food (parseFloat (gramsText st))])
          \<in> set (snd (handleAddFood post_ok st))
        \<and> todayEntries (fst (handleAddFood True st)) =
            todayEntries st @ [handleAddFood_entry food (parseFloat (gramsText st))])"
  by (auto simp: handleAddFood_rejected handleAddFood_accepted)

text \<open>
  The theorem at the empty text, which is rejected, and at the text \<open>-50\<close> with a food
  that lacks \<^verbatim>\<open>proteins_per_100g\<close>, which is logged with negative fields and a NaN.
\<close>

theorem handleAddFood_guard_witness:
  "(selectedFood \<lparr>selectedDate = ''2024-05-01'',
        selectedFood = Some \<lparr>name = ''Rice'', kcal_per_100g = JNumber 200,
          proteins_per_100g = JNumber 4, carbs_per_100g = JNumber 44, fats_per_100g = JNumber 1\<rparr>,
        gramsText = [], todayEntries = [], modalVisible = True\<rparr> = None
      \<or> gramsText \<lparr>selectedDate = ''2024-05-01'',
        selectedFood = Some \<lparr>name = ''Rice'', kcal_per_100g = JNumber 200,
          proteins_per_100g = JNumber 4, carbs_per_100g = JNumber 44, fats_per_100g = JNumber 1\<rparr>,
        gramsText = [], todayEntries = [], modalVisible = True\<rparr> = [])
   \<and> snd (handleAddFood True
        \<lparr>selectedDate = ''2024-05-01'',
         selectedFood = Some \<lparr>name = ''Rice'', kcal_per_100g = JNumber 200,
           proteins_per_100g = JNumber 4, carbs_per_100g = JNumber 44, fats_per_100g = JNumber 1\<rparr>,
         gramsText = [], todayEntries = [], modalVisible = True\<rparr>)
       = [Alert ''Error'' ''Please enter the amount in grams'']
   \<and> (selectedFood \<lparr>selectedDate = ''2024-05-01'',
        selectedFood = Some \<lparr>name = ''Rice'', kcal_per_100g = JNumber 200,
          proteins_per_100g = JUndefined, carbs_per_100g = JNumber 44, fats_per_100g = JNumber 1\<rparr>,
        gramsText = ascii ''-50'', todayEntries = [], modalVisible = True\<rparr>
       = Some \<lparr>name = ''Rice'', kcal_per_100g = JNumber 200,
          proteins_per_100g = JUndefined, carbs_per_100g = JNumber 44, fats_per_100g = JNumber 1\<rparr>
      \<and> gramsText \<lparr>selectedDate = ''2024-05-01'',
        selectedFood = Some \<lparr>name = ''Rice'', kcal_per_100g = JNumber 200,
          proteins_per_100g = JUndefined, carbs_per_100g = JNumber 44, fats_per_100g = JNumber 1\<rparr>,
        gramsText = ascii ''-50'', todayEntries = [], modalVisible = True\<rparr> \<noteq> [])
   \<and> todayEntries (fst (handleAddFood True
        \<lparr>selectedDate = ''2024-05-01'',
         selectedFood = Some \<lparr>name = ''Rice'', kcal_per_100g = JNumber 200,
           proteins_per_100g = JUndefined, carbs_per_100g = JNumber 44, fats_per_100g = JNumber 1\<rparr>,
         gramsText = ascii ''-50'', todayEntries = [], modalVisible = True\<rparr>))
       = [\<lparr>food_name = ''Rice'', grams = Num (- 50), kcal = Num (- 100),
           proteins = NaN, carbs = Num (- 22), fats = Num (- (1 / 2))\<rparr>]"
  using handleAddFood_guard
    [of "\<lparr>selectedDate = ''2024-05-01'',
         selectedFood = Some \<lparr>name = ''Rice'', kcal_per_100g = JNumber 200,
           proteins_per_100g = JNumber 4, carbs_per_100g = JNumber 44, fats_per_100g = JNumber 1\<rparr>,
         gramsText = [], todayEntries = [], modalVisible = True\<rparr>" True]
    handleAddFood_guard
    [of "\<lparr>selectedDate = ''2024-05-01'',
         selectedFood = Some \<lparr>name = ''Rice'', kcal_per_100g = JNumber 200,
           proteins_per_100g = JUndefined, carbs_per_100g = JNumber 44, fats_per_100g = JNumber 1\<rparr>,
         gramsText = ascii ''-50'', todayEntries = [], modalVisible = True\<rparr>"
        True
        "\<lparr>name = ''Rice'', kcal_per_100g = JNumber 200,
           proteins_per_100g = JUndefined, carbs_per_100g = JNumber 44, fats_per_100g = JNumber 1\<rparr>"]
  by (simp add: parseFloat_minus_50 ascii_nonempty handleAddFood_entry_def Let_def round64_eval)

text \<open>
  The text \<open>0\<close> is accepted: an entry of 0 grams is sent and appended to the log, where
  the specification has the operation fail for every quantity that is not positive.
\<close>

theorem handleAddFood_zero_grams_counterexample:
  "handleAddFood True
     \<lparr>selectedDate = ''2024-05-01'',
      selectedFood = Some \<lparr>name = ''Rice'', kcal_per_100g = JNumber 200,
        proteins_per_100g = JNumber 4, carbs_per_100g = JNumber 44, fats_per_100g = JNumber 1\<rparr>,
      gramsText = ascii ''0'', todayEntries = [], modalVisible = True\<rparr>
   = (\<lparr>selectedDate = ''2024-05-01'', selectedFood = None, gramsText = [],
       todayEntries = [\<lparr>food_name = ''Rice'', grams = Num 0, kcal = Num 0,
         proteins = Num 0, carbs = Num 0, fats = Num 0\<rparr>],
       modalVisible = False\<rparr>,
      [Post ''2024-05-01'' [\<lparr>food_name = ''Rice'', grams = Num 0, kcal = Num 0,
         proteins = Num 0, carbs = Num 0, fats = Num 0\<rparr>],
       Alert ''Success'' ''Food added to log!''])"
  by (simp add: handleAddFood_def handleAddFood_entry_def Let_def parseFloat_0 ascii_nonempty round64_eval)

section \<open>Progress towards a goal\<close>

lemma progress_Some:
  "progress (Some \<lparr>total_intake = c, goal_ml = g\<rparr>) =
     (if ToBoolean g then js_mul (js_div (ToNumber c) (ToNumber g)) (Num 100) else Num 0)"
  by (simp add: progress_def)

lemma progress_numeric:
  "g \<noteq> 0 \<Longrightarrow> progress (Some \<lparr>total_intake = JNumber c, goal_ml = JNumber g\<rparr>)
     = js_mul (js_div (Num c) (Num g)) (Num 100)"
  by (simp add: progress_Some)

lemma progress_no_goal:
  "goal \<in> {JUndefined, JNull, JNumber 0} \<Longrightarrow>
     progress (Some \<lparr>total_intake = c, goal_ml = goal\<rparr>) = Num 0"
  by (auto simp: progress_Some)

lemma progress_None: "progress None = Num 0"
  by (simp add: progress_def)


lemma calorieProgress_numeric:
  "g \<noteq> 0 \<Longrightarrow>
     calorieProgress (Some \<lparr>dd_user = Some \<lparr>daily_calorie_target = JNumber g\<rparr>,
       dd_food = Some \<lparr>total_kcal = JNumber c\<rparr>, dd_water = w\<rparr>)
     = Inr (js_mul (js_div (Num c) (Num g)) (Num 100))"
  by (simp add: calorieProgress_def optional_field_def)

lemma calorieProgress_no_goal:
  "goal \<in> {JUndefined, JNull, JNumber 0} \<Longrightarrow>
     calorieProgress (Some \<lparr>dd_user = Some \<lparr>daily_calorie_target = goal\<rparr>,
       dd_food = f, dd_water = w\<rparr>) = Inr (Num 0)"
  by (auto simp: calorieProgress_def optional_field_def)

lemma calorieProgress_no_user:
  "calorieProgress None = Inr (Num 0)"
  "calorieProgress (Some \<lparr>dd_user = None, dd_food = f, dd_water = w\<rparr>) = Inr (Num 0)"
  by (simp_all add: calorieProgress_def optional_field_def)

lemma waterProgress_Some:
  "waterProgress (Some \<lparr>dd_user = u, dd_food = f, dd_water = w\<rparr>) = progress w"
  by (simp add: waterProgress_def)


lemma progress_fill_in_range:
  assumes "0 \<le> c" and "goal_not_negative g"
  shows "in_percent_range
     (Math_min (progress (Some \<lparr>total_intake = JNumber c, goal_ml = g\<rparr>)) (Num 100))"
proof (cases "ToBoolean g")
  case False
  then show ?thesis by (simp add: progress_Some)
next
  case True
  with assms(2) obtain r where r: "g = JNumber r" "0 < r"
    by (cases g) auto
  have e: "progress (Some \<lparr>total_intake = JNumber c, goal_ml = g\<rparr>)
      = js_mul (js_div (Num c) (Num r)) (Num 100)"
    using r by (simp only: progress_numeric)
  have "in_percent_range (Math_min (js_mul (js_div (Num c) (Num r)) (Num 100)) (Num 100))"
    by (rule Math_min_100_range [OF ratio_nonnegative [OF assms(1) r(2)]])
  with e show ?thesis by (simp only:)
qed

lemma calorieProgress_fill_in_range:
  assumes "0 \<le> c" and "goal_not_negative g"
  shows "\<exists>cp. calorieProgress (Some \<lparr>dd_user = Some \<lparr>daily_calorie_target = g\<rparr>,
       dd_food = Some \<lparr>total_kcal = JNumber c\<rparr>, dd_water = w\<rparr>) = Inr cp
     \<and> in_percent_range (Math_min cp (Num 100))"
proof (cases "ToBoolean g")
  case False
  then show ?thesis by (simp add: calorieProgress_def optional_field_def)
next
  case True
  with assms(2) obtain r where r: "g = JNumber r" "0 < r"
    by (cases g) auto
  have e: "calorieProgress (Some \<lparr>dd_user = Some \<lparr>daily_calorie_target = g\<rparr>,
       dd_food = Some \<lparr>total_kcal = JNumber c\<rparr>, dd_water = w\<rparr>)
      = Inr (js_mul (js_div (Num c) (Num r)) (Num 100))"
    using r by (simp only: calorieProgress_numeric)
  have "in_percent_range (Math_min (js_mul (js_div (Num c) (Num r)) (Num 100)) (Num 100))"
    by (rule Math_min_100_range [OF ratio_nonnegative [OF assms(1) r(2)]])
  with e show ?thesis by blast
qed

lemma Dashboard_Inr:
  assumes "calorieProgress dashboardData = Inr cp"
  shows "Dashboard user dashboardData =
     Inr \<lparr>calorie_fill_width = Math_min cp (Num 100),
          calories_consumed =
            js_or (optional_field total_kcal (Option.bind dashboardData dd_food)) 0,
          calories_target = js_or (optional_field daily_calorie_target user) 0,
          calories_remaining = remainingCalories user dashboardData,
          water_fill_width = Math_min (waterProgress dashboardData) (Num 100),
          water_consumed_ml =
            js_or (optional_field total_intake (Option.bind dashboardData dd_water)) 0,
          water_goal_ml =
            js_or (optional_field goal_ml (Option.bind dashboardData dd_water)) 2000\<rparr>"
  using assms by (simp add: Dashboard_def)

text \<open>
  Claim C3, as amended.  The three progress computations (the water screen's
  \<^verbatim>\<open>progress\<close>, the dashboard's \<^verbatim>\<open>waterProgress\<close> and \<^verbatim>\<open>calorieProgress\<close>) return,
  for every numeric \<open>consumed\<close> and every goal that is a number other than 0, negative
  goals included, the ratio \<open>consumed / goal * 100\<close> computed in double arithmetic: the
  quotient is rounded to the nearest double \<open>q\<close>, and the result is \<open>q * 100\<close>, rounded
  again; whenever neither step rounds it is exactly \<open>consumed / goal * 100\<close>.  They
  return 0 when the goal is missing, \<^verbatim>\<open>null\<close> or 0, or when the object that holds it
  is missing.  For \<^verbatim>\<open>calorieProgress\<close> with a goal other than 0 this is stated with the
  food totals present.
\<close>

theorem progress_ratio_total:
  "(g \<noteq> 0 \<longrightarrow>
      progress (Some \<lparr>total_intake = JNumber c, goal_ml = JNumber g\<rparr>)
          = js_mul (js_div (Num c) (Num g)) (Num 100)
      \<and> waterProgress (Some \<lparr>dd_user = u, dd_food = f,
            dd_water = Some \<lparr>total_intake = JNumber c, goal_ml = JNumber g\<rparr>\<rparr>)
          = js_mul (js_div (Num c) (Num g)) (Num 100)
      \<and> calorieProgress (Some \<lparr>dd_user = Some \<lparr>daily_calorie_target = JNumber g\<rparr>,
            dd_food = Some \<lparr>total_kcal = JNumber c\<rparr>, dd_water = w\<rparr>)
          = Inr (js_mul (js_div (Num c) (Num g)) (Num 100))
      \<and> (round64 (c / g) = Num q \<longrightarrow>
           js_mul (js_div (Num c) (Num g)) (Num 100) = round64 (q * 100))
      \<and> (is_double (c / g) \<and> is_double (c / g * 100) \<longrightarrow>
           js_mul (js_div (Num c) (Num g)) (Num 100) = Num (c / g * 100)))
   \<and> (goal \<in> {JUndefined, JNull, JNumber 0} \<longrightarrow>
        progress (Some \<lparr>total_intake = consumed, goal_ml = goal\<rparr>) = Num 0
        \<and> waterProgress (Some \<lparr>dd_user = u, dd_food = f,
              dd_water = Some \<lparr>total_intake = consumed, goal_ml = goal\<rparr>\<rparr>) = Num 0
        \<and> calorieProgress (Some \<lparr>dd_user = Some \<lparr>daily_calorie_target = goal\<rparr>,
              dd_food = f, dd_water = w\<rparr>) = Inr (Num 0))
   \<and> progress None = Num 0
   \<and> waterProgress None = Num 0
   \<and> waterProgress (Some \<lparr>dd_user = u, dd_food = f, dd_water = None\<rparr>) = Num 0
   \<and> calorieProgress None = Inr (Num 0)
   \<and> calorieProgress (Some \<lparr>dd_user = None, dd_food = f, dd_water = w\<rparr>) = Inr (Num 0)"
proof -
  have a: "progress (Some \<lparr>total_intake = JNumber c, goal_ml = JNumber g\<rparr>)
          = js_mul (js_div (Num c) (Num g)) (Num 100)
      \<and> waterProgress (Some \<lparr>dd_user = u, dd_food = f,
            dd_water = Some \<lparr>total_intake = JNumber c, goal_ml = JNumber g\<rparr>\<rparr>)
          = js_mul (js_div (Num c) (Num g)) (Num 100)
      \<and> calorieProgress (Some \<lparr>dd_user = Some \<lparr>daily_calorie_target = JNumber g\<rparr>,
            dd_food = Some \<lparr>total_kcal = JNumber c\<rparr>, dd_water = w\<rparr>)
          = Inr (js_mul (js_div (Num c) (Num g)) (Num 100))
      \<and> (round64 (c / g) = Num q \<longrightarrow>
           js_mul (js_div (Num c) (Num g)) (Num 100) = round64 (q * 100))
      \<and> (is_double (c / g) \<and> is_double (c / g * 100) \<longrightarrow>
           js_mul (js_div (Num c) (Num g)) (Num 100) = Num (c / g * 100))"
    if g: "g \<noteq> 0"
  proof -
    have "round64 (c / g) = Num q \<longrightarrow>
           js_mul (js_div (Num c) (Num g)) (Num 100) = round64 (q * 100)"
      using g by simp
    moreover have "is_double (c / g) \<and> is_double (c / g * 100) \<longrightarrow>
           js_mul (js_div (Num c) (Num g)) (Num 100) = Num (c / g * 100)"
      using ratio_exact [OF g] by blast
    ultimately show ?thesis
      by (simp only: progress_numeric [OF g] calorieProgress_numeric [OF g] waterProgress_Some
            simp_thms)
  qed
  have b: "progress (Some \<lparr>total_intake = consumed, goal_ml = goal\<rparr>) = Num 0
        \<and> waterProgress (Some \<lparr>dd_user = u, dd_food = f,
              dd_water = Some \<lparr>total_intake = consumed, goal_ml = goal\<rparr>\<rparr>) = Num 0
        \<and> calorieProgress (Some \<lparr>dd_user = Some \<lparr>daily_calorie_target = goal\<rparr>,
              dd_food = f, dd_water = w\<rparr>) = Inr (Num 0)"
    if g: "goal \<in> {JUndefined, JNull, JNumber 0}"
    by (simp only: progress_no_goal [OF g] calorieProgress_no_goal [OF g] waterProgress_Some
          simp_thms)
  have c: "progress None = Num 0 \<and> waterProgress None = Num 0
     \<and> waterProgress (Some \<lparr>dd_user = u, dd_food = f, dd_water = None\<rparr>) = Num 0
     \<and> calorieProgress None = Inr (Num 0)
     \<and> calorieProgress (Some \<lparr>dd_user = None, dd_food = f, dd_water = w\<rparr>) = Inr (Num 0)"
    by (simp add: progress_None calorieProgress_no_user waterProgress_def)
  from a b c show ?thesis by blast
qed

text \<open>
  The theorem at 1500 of 2000 (75), at 500 of the goal \<open>- 2000\<close> (\<open>- 25\<close>) and at a
  \<^verbatim>\<open>null\<close> goal (0).
\<close>

theorem progress_ratio_total_witness:
  "(2000::real) \<noteq> 0
   \<and> round64 (1500 / 2000) = Num (3 / 4)
   \<and> is_double (1500 / 2000) \<and> is_double (1500 / 2000 * 100)
   \<and> progress (Some \<lparr>total_intake = JNumber 1500, goal_ml = JNumber 2000\<rparr>) = Num 75
   \<and> (- 2000::real) \<noteq> 0
   \<and> calorieProgress (Some \<lparr>dd_user = Some \<lparr>daily_calorie_target = JNumber (- 2000)\<rparr>,
         dd_food = Some \<lparr>total_kcal = JNumber 500\<rparr>, dd_water = None\<rparr>) = Inr (Num (- 25))
   \<and> JNull \<in> {JUndefined, JNull, JNumber 0}
   \<and> waterProgress (Some \<lparr>dd_user = None, dd_food = None,
         dd_water = Some \<lparr>total_intake = JNumber 1500, goal_ml = JNull\<rparr>\<rparr>) = Num 0"
proof -
  have d: "is_double (1500 / 2000)" "is_double (1500 / 2000 * 100)"
    "round64 (1500 / 2000) = Num (3 / 4)"
    by (simp_all add: is_double_def round64_eval)
  show ?thesis
    using progress_ratio_total
        [where g = 2000 and c = 1500 and u = None and f = None and w = None
           and goal = JNull and consumed = "JNumber 1500" and q = "3 / 4"]
      progress_ratio_total
        [where g = "- 2000" and c = 500 and u = None and f = None and w = None
           and goal = JNull and consumed = "JNumber 1500"] d
    by (simp add: ratio_eval del: js_mul.simps js_div.simps)
qed

text \<open>
  With 500 consumed and the goal \<open>- 2000\<close> the water screen's ratio is \<open>- 25\<close>, where
  the specification has 0 for every goal that is not positive.
\<close>

theorem progress_negative_goal_counterexample:
  "progress (Some \<lparr>total_intake = JNumber 500, goal_ml = JNumber (- 2000)\<rparr>) = Num (- 25)
   \<and> progress (Some \<lparr>total_intake = JNumber 500, goal_ml = JNumber (- 2000)\<rparr>) \<noteq> Num 0"
  by (simp add: progress_numeric ratio_eval del: js_mul.simps js_div.simps)

text \<open>
  Claim C4, as amended.  The fill of a progress bar is \<^verbatim>\<open>Math.min\<close> of the raw ratio
  and 100, and never exceeds 100; the water screen prints the raw ratio itself.  The
  fill lies in [0,100] whenever \<open>consumed\<close> is a number that is at least 0 and the goal
  is not negative.  1500 of 2000 gives the raw ratio 75 and the fill 75; 2500 of 2000
  gives the raw ratio 125 and the fill 100.
\<close>

theorem fill_is_clamped_progress:
  "waterLevel_height (Water waterData) = Math_min (waterPercentage (Water waterData)) (Num 100)
   \<and> waterPercentage (Water waterData) = progress waterData
   \<and> \<not> js_lt (Num 100) (waterLevel_height (Water waterData))
   \<and> (calorieProgress dashboardData = Inr cp \<longrightarrow>
        (\<exists>v. Dashboard user dashboardData = Inr v
           \<and> calorie_fill_width v = Math_min cp (Num 100)
           \<and> water_fill_width v = Math_min (waterProgress dashboardData) (Num 100)
           \<and> \<not> js_lt (Num 100) (calorie_fill_width v)
           \<and> \<not> js_lt (Num 100) (water_fill_width v)))
   \<and> (0 \<le> c \<and> goal_not_negative g \<longrightarrow>
        in_percent_range
          (waterLevel_height (Water (Some \<lparr>total_intake = JNumber c, goal_ml = g\<rparr>)))
        \<and> (\<exists>v. Dashboard user
                  (Some \<lparr>dd_user = Some \<lparr>daily_calorie_target = g\<rparr>,
                         dd_food = Some \<lparr>total_kcal = JNumber c\<rparr>,
                         dd_water = Some \<lparr>total_intake = JNumber c, goal_ml = g\<rparr>\<rparr>) = Inr v
               \<and> in_percent_range (calorie_fill_width v)
               \<and> in_percent_range (water_fill_width v)))
   \<and> Water (Some \<lparr>total_intake = JNumber 1500, goal_ml = JNumber 2000\<rparr>)
       = \<lparr>waterLevel_height = Num 75, waterPercentage = Num 75,
          consumed_ml = Num 1500, goal_display_ml = Num 2000\<rparr>
   \<and> Water (Some \<lparr>total_intake = JNumber 2500, goal_ml = JNumber 2000\<rparr>)
       = \<lparr>waterLevel_height = Num 100, waterPercentage = Num 125,
          consumed_ml = Num 2500, goal_display_ml = Num 2000\<rparr>"
proof -
  have w1: "waterLevel_height (Water waterData) = Math_min (waterPercentage (Water waterData)) (Num 100)"
    and w2: "waterPercentage (Water waterData) = progress waterData"
    by (simp_all add: Water_def)
  have w3: "\<not> js_lt (Num 100) (waterLevel_height (Water waterData))"
    by (simp add: Water_def Math_min_100_upper)
  have d1: "\<exists>v. Dashboard user dashboardData = Inr v
           \<and> calorie_fill_width v = Math_min cp (Num 100)
           \<and> water_fill_width v = Math_min (waterProgress dashboardData) (Num 100)
           \<and> \<not> js_lt (Num 100) (calorie_fill_width v)
           \<and> \<not> js_lt (Num 100) (water_fill_width v)"
    if "calorieProgress dashboardData = Inr cp"
    by (simp add: Dashboard_Inr [OF that] Math_min_100_upper)
  have r1: "in_percent_range
          (waterLevel_height (Water (Some \<lparr>total_intake = JNumber c, goal_ml = g\<rparr>)))"
    if h1: "0 \<le> c" and h2: "goal_not_negative g"
    using progress_fill_in_range [OF h1 h2] by (simp add: Water_def)
  have r2: "\<exists>v. Dashboard user
                  (Some \<lparr>dd_user = Some \<lparr>daily_calorie_target = g\<rparr>,
                         dd_food = Some \<lparr>total_kcal = JNumber c\<rparr>,
                         dd_water = Some \<lparr>total_intake = JNumber c, goal_ml = g\<rparr>\<rparr>) = Inr v
               \<and> in_percent_range (calorie_fill_width v)
               \<and> in_percent_range (water_fill_width v)"
    if h1: "0 \<le> c" and h2: "goal_not_negative g"
  proof -
    obtain q where q:
      "calorieProgress (Some \<lparr>dd_user = Some \<lparr>daily_calorie_target = g\<rparr>,
         dd_food = Some \<lparr>total_kcal = JNumber c\<rparr>,
         dd_water = Some \<lparr>total_intake = JNumber c, goal_ml = g\<rparr>\<rparr>) = Inr q"
      "in_percent_range (Math_min q (Num 100))"
      using calorieProgress_fill_in_range [OF h1 h2] by blast
    show ?thesis
      using progress_fill_in_range [OF h1 h2] q(2)
      by (simp add: Dashboard_Inr [OF q(1)] waterProgress_Some)
  qed
  have e1: "Water (Some \<lparr>total_intake = JNumber 1500, goal_ml = JNumber 2000\<rparr>)
       = \<lparr>waterLevel_height = Num 75, waterPercentage = Num 75,
          consumed_ml = Num 1500, goal_display_ml = Num 2000\<rparr>"
    and e2: "Water (Some \<lparr>total_intake = JNumber 2500, goal_ml = JNumber 2000\<rparr>)
       = \<lparr>waterLevel_height = Num 100, waterPercentage = Num 125,
          consumed_ml = Num 2500, goal_display_ml = Num 2000\<rparr>"
    by (simp_all add: Water_def progress_numeric ratio_eval optional_field_def
          del: js_mul.simps js_div.simps)
  from w1 w2 w3 d1 r1 r2 e1 e2 show ?thesis by blast
qed

text \<open>
  The theorem at 2500 of 2000, on both screens.
\<close>

theorem fill_is_clamped_progress_witness:
  "calorieProgress (Some \<lparr>dd_user = Some \<lparr>daily_calorie_target = JNumber 2000\<rparr>,
       dd_food = Some \<lparr>total_kcal = JNumber 2500\<rparr>,
       dd_water = Some \<lparr>total_intake = JNumber 2500, goal_ml = JNumber 2000\<rparr>\<rparr>) = Inr (Num 125)
   \<and> (0::real) \<le> 2500 \<and> goal_not_negative (JNumber 2000)
   \<and> in_percent_range
        (waterLevel_height (Water (Some \<lparr>total_intake = JNumber 2500, goal_ml = JNumber 2000\<rparr>)))
   \<and> Dashboard None
        (Some \<lparr>dd_user = Some \<lparr>daily_calorie_target = JNumber 2000\<rparr>,
               dd_food = Some \<lparr>total_kcal = JNumber 2500\<rparr>,
               dd_water = Some \<lparr>total_intake = JNumber 2500, goal_ml = JNumber 2000\<rparr>\<rparr>)
       = Inr \<lparr>calorie_fill_width = Num 100, calories_consumed = Num 2500,
              calories_target = Num 0, calories_remaining = Num 0,
              water_fill_width = Num 100, water_consumed_ml = Num 2500,
              water_goal_ml = Num 2000\<rparr>"
  using fill_is_clamped_progress
    [where dashboardData = "Some \<lparr>dd_user = Some \<lparr>daily_calorie_target = JNumber 2000\<rparr>,
       dd_food = Some \<lparr>total_kcal = JNumber 2500\<rparr>,
       dd_water = Some \<lparr>total_intake = JNumber 2500, goal_ml = JNumber 2000\<rparr>\<rparr>"
      and cp = "Num 125" and user = None and c = 2500 and g = "JNumber 2000"]
  by (simp add: Dashboard_def calorieProgress_def waterProgress_def progress_def
        optional_field_def remainingCalories_def Water_def round64_eval)

text \<open>
  With 1500 consumed and the goal \<open>- 2000\<close> the water level is \<open>- 75\<close> percent, outside
  [0,100].
\<close>

theorem Water_negative_goal_counterexample:
  "Water (Some \<lparr>total_intake = JNumber 1500, goal_ml = JNumber (- 2000)\<rparr>)
     = \<lparr>waterLevel_height = Num (- 75), waterPercentage = Num (- 75),
        consumed_ml = Num 1500, goal_display_ml = Num (- 2000)\<rparr>
   \<and> \<not> in_percent_range (Num (- 75))"
  by (simp add: Water_def progress_numeric ratio_eval optional_field_def
        del: js_mul.simps js_div.simps)



section \<open>Remaining calories\<close>

lemma remainingCalories_round64:
  "remainingCalories user dashboardData =
     round64 (max 0 (value_or_zero (optional_field daily_calorie_target user)
                  - value_or_zero (optional_field total_kcal (Option.bind dashboardData dd_food))))"
  by (simp add: remainingCalories_def js_or_zero Math_max_0_round64)

text \<open>
  Claim C9, as amended.  The number under "Remaining" is the larger of 0 and the target
  minus the calories consumed, a missing target or total counting as 0, rounded to the
  nearest double (an infinity beyond the largest double); it is exactly that number
  whenever the difference is a double, and it is never negative.
\<close>

theorem remainingCalories_clamped:
  "remainingCalories user dashboardData =
     round64 (max 0 (value_or_zero (optional_field daily_calorie_target user)
                  - value_or_zero (optional_field total_kcal (Option.bind dashboardData dd_food))))
   \<and> (is_double (value_or_zero (optional_field daily_calorie_target user)
                  - value_or_zero (optional_field total_kcal (Option.bind dashboardData dd_food)))
        \<longrightarrow> remainingCalories user dashboardData =
          Num (max 0 (value_or_zero (optional_field daily_calorie_target user)
                  - value_or_zero (optional_field total_kcal (Option.bind dashboardData dd_food)))))
   \<and> \<not> js_lt (remainingCalories user dashboardData) (Num 0)
   \<and> (Dashboard user dashboardData = Inr v \<longrightarrow>
        calories_remaining v = remainingCalories user dashboardData)"
proof -
  let ?d = "value_or_zero (optional_field daily_calorie_target user)
              - value_or_zero (optional_field total_kcal (Option.bind dashboardData dd_food))"
  have a: "remainingCalories user dashboardData = round64 (max 0 ?d)"
    by (rule remainingCalories_round64)
  have b: "remainingCalories user dashboardData = Num (max 0 ?d)" if "is_double ?d"
  proof (cases "0 \<le> ?d")
    case True
    then have "max 0 ?d = ?d" by simp
    with that show ?thesis by (simp only: a is_double_def)
  next
    case False
    then have "max 0 ?d = 0" by simp
    then show ?thesis by (simp only: a round64_0)
  qed
  have c: "\<not> js_lt (remainingCalories user dashboardData) (Num 0)"
    by (simp only: a round64_max_0_not_negative simp_thms)
  have d: "calories_remaining v = remainingCalories user dashboardData"
    if "Dashboard user dashboardData = Inr v"
    using that by (auto simp: Dashboard_def split: sum.splits)
  from a b c d show ?thesis by blast
qed

text \<open>
  The theorem at the target 2000 with 2500 consumed: 0 remains.
\<close>

theorem remainingCalories_clamped_witness:
  "is_double (value_or_zero (optional_field daily_calorie_target
        (Some \<lparr>daily_calorie_target = JNumber 2000\<rparr>))
      - value_or_zero (optional_field total_kcal (Option.bind
          (Some \<lparr>dd_user = None, dd_food = Some \<lparr>total_kcal = JNumber 2500\<rparr>, dd_water = None\<rparr>)
          dd_food)))
   \<and> Dashboard (Some \<lparr>daily_calorie_target = JNumber 2000\<rparr>)
     (Some \<lparr>dd_user = None, dd_food = Some \<lparr>total_kcal = JNumber 2500\<rparr>, dd_water = None\<rparr>)
     = Inr \<lparr>calorie_fill_width = Num 0, calories_consumed = Num 2500,
            calories_target = Num 2000, calories_remaining = Num 0,
            water_fill_width = Num 0, water_consumed_ml = Num 0, water_goal_ml = Num 2000\<rparr>
   \<and> remainingCalories (Some \<lparr>daily_calorie_target = JNumber 2000\<rparr>)
     (Some \<lparr>dd_user = None, dd_food = Some \<lparr>total_kcal = JNumber 2500\<rparr>, dd_water = None\<rparr>)
     = Num 0"
  using remainingCalories_clamped
    [of "Some \<lparr>daily_calorie_target = JNumber 2000\<rparr>"
        "Some \<lparr>dd_user = None, dd_food = Some \<lparr>total_kcal = JNumber 2500\<rparr>, dd_water = None\<rparr>"
        "\<lparr>calorie_fill_width = Num 0, calories_consumed = Num 2500,
            calories_target = Num 2000, calories_remaining = Num 0,
            water_fill_width = Num 0, water_consumed_ml = Num 0, water_goal_ml = Num 2000\<rparr>"]
  by (simp add: Dashboard_def calorieProgress_def waterProgress_def progress_def optional_field_def
        remainingCalories_def is_double_def round64_eval)

text \<open>
  With the target 2000 and 14.000000000000002 kcal consumed the screen shows 1986,
  where the larger of 0 and the difference is \<open>1986 - 1 / 2 ^ 49\<close>.
\<close>

theorem remainingCalories_rounded_counterexample:
  "remainingCalories (Some \<lparr>daily_calorie_target = JNumber 2000\<rparr>)
     (Some \<lparr>dd_user = None,
            dd_food = Some \<lparr>total_kcal = JNumber (7881299347898369 / 562949953421312)\<rparr>,
            dd_water = None\<rparr>)
     = Num 1986
   \<and> max 0 (2000 - 7881299347898369 / 562949953421312) \<noteq> (1986::real)"
  by (simp add: remainingCalories_def optional_field_def round64_eval)

end
